theory Spec2Isabelle
  imports Main
begin

section \<open>Promises, as ChatService.js uses them\<close>

text \<open>
  Every operation of ChatService.js that talks to the backend has the shape
  \<^verbatim>\<open>new Promise((resolve, reject) => { ... backendCall.then(h1).catch(h2) })\<close>.
  A promise is modelled by its eventual state (the state it has once every callback that
  can run has run). A promise that is never settled stays \<open>Pending\<close>.
\<close>

datatype ('a, 'e) promise = Pending | Fulfilled 'a | Rejected 'e

text \<open>How a callback (or the executor) ends: it returns, or it throws.\<close>

datatype ('r, 'e) completion = Returns 'r | Throws 'e

text \<open>
  Rejection reasons and thrown values: a \<open>TypeError\<close> raised by the runtime, a string
  (\<^verbatim>\<open>reject("...")\<close>), or any other error value \<open>Err x\<close> (what the backend client
  rejects with).
\<close>

datatype 'x reason = TypeError | Str string | Err 'x

text \<open>
  The state a promise executor and its callbacks work on: the promise being constructed
  (\<open>outer\<close>), and the backend calls issued so far, oldest first (\<open>calls\<close>).
\<close>

record ('a, 'x, 'c) exec_state =
  outer :: "('a, 'x reason) promise"
  calls :: "'c list"

text \<open>
  \<^verbatim>\<open>resolve(v)\<close> and \<^verbatim>\<open>reject(e)\<close> settle the promise under construction; on a
  promise that is already settled they do nothing.
\<close>

definition resolve :: "'a \<Rightarrow> ('a, 'x, 'c) exec_state \<Rightarrow> ('a, 'x, 'c) exec_state" where
  "resolve v s = (case outer s of Pending \<Rightarrow> s\<lparr>outer := Fulfilled v\<rparr> | _ \<Rightarrow> s)"

definition reject :: "'x reason \<Rightarrow> ('a, 'x, 'c) exec_state \<Rightarrow> ('a, 'x, 'c) exec_state" where
  "reject e s = (case outer s of Pending \<Rightarrow> s\<lparr>outer := Rejected e\<rparr> | _ \<Rightarrow> s)"

definition issue :: "'c \<Rightarrow> ('a, 'x, 'c) exec_state \<Rightarrow> ('a, 'x, 'c) exec_state" where
  "issue c s = s\<lparr>calls := calls s @ [c]\<rparr>"

text \<open>
  \<^verbatim>\<open>p.then(h)\<close>: when \<open>p\<close> is fulfilled the callback runs on its value, and the derived
  promise is fulfilled with what the callback returns or rejected with what it throws;
  a rejection of \<open>p\<close> passes through to the derived promise; nothing runs while \<open>p\<close> is
  pending. \<^verbatim>\<open>p.catch(h)\<close> is the mirror image.
\<close>

definition promise_then ::
  "('v, 'e) promise \<Rightarrow> ('v \<Rightarrow> 's \<Rightarrow> ('r, 'e) completion \<times> 's) \<Rightarrow> 's \<Rightarrow> ('r, 'e) promise \<times> 's" where
  "promise_then p h s =
     (case p of
        Pending \<Rightarrow> (Pending, s)
      | Rejected e \<Rightarrow> (Rejected e, s)
      | Fulfilled v \<Rightarrow>
          (case h v s of
             (Returns r, s') \<Rightarrow> (Fulfilled r, s')
           | (Throws e, s') \<Rightarrow> (Rejected e, s')))"

definition promise_catch ::
  "('r, 'e) promise \<Rightarrow> ('e \<Rightarrow> 's \<Rightarrow> ('r, 'e) completion \<times> 's) \<Rightarrow> 's \<Rightarrow> ('r, 'e) promise \<times> 's" where
  "promise_catch p h s =
     (case p of
        Pending \<Rightarrow> (Pending, s)
      | Fulfilled r \<Rightarrow> (Fulfilled r, s)
      | Rejected e \<Rightarrow>
          (case h e s of
             (Returns r, s') \<Rightarrow> (Fulfilled r, s')
           | (Throws e', s') \<Rightarrow> (Rejected e', s')))"

text \<open>
  \<^verbatim>\<open>new Promise(executor)\<close>: the executor runs on a pending promise; when it throws, the
  promise is rejected with the thrown value (unless already settled).
\<close>

definition new_Promise ::
  "(('a, 'x, 'c) exec_state \<Rightarrow> (unit, 'x reason) completion \<times> ('a, 'x, 'c) exec_state)
     \<Rightarrow> ('a, 'x, 'c) exec_state" where
  "new_Promise executor =
     (case executor \<lparr>outer = Pending, calls = []\<rparr> of
        (Returns _, s) \<Rightarrow> s
      | (Throws e, s) \<Rightarrow> reject e s)"

section \<open>Data model\<close>

text \<open>
  The records the service builds and receives. Field \<^verbatim>\<open>_id\<close> of the source is
  \<open>u_id\<close>, \<open>c_id\<close>, \<open>m_id\<close> here; the other fields keep their names behind the same
  prefixes. Dates are time stamps.
\<close>

record user =
  u_id :: string
  u_name :: string

record chat =
  c_id :: string
  c_to :: string
  c_from :: string
  c_creation :: nat

record message =
  m_id :: string
  m_text :: string
  m_read :: bool
  m_chat_id :: string
  m_from :: string
  m_time :: nat

text \<open>A backend response: \<^verbatim>\<open>res.status\<close> and \<^verbatim>\<open>res.data\<close>.\<close>

record 'd response =
  status :: int
  data :: 'd

text \<open>
  What the service reads from its surroundings: the signed-in user of the store
  (\<^verbatim>\<open>store.getState().user.user\<close>, absent before sign-in), the identifier that
  \<^verbatim>\<open>config.generateId()\<close> returns, and the time \<^verbatim>\<open>new Date()\<close> reads.
\<close>

record ambient =
  store_user :: "user option"
  generateId :: string
  new_Date :: nat

section \<open>createChat and sendMessage\<close>

text \<open>
  \<open>db\<close> stands for \<^verbatim>\<open>config.db.insert(collection).one(doc)\<close>: the promise the backend
  client returns for that call. Reading \<^verbatim>\<open>user._id\<close> of an absent user throws a
  \<open>TypeError\<close> inside the executor, before the insert is issued.
\<close>

definition createChat ::
  "ambient \<Rightarrow> (string \<Rightarrow> chat \<Rightarrow> ('d response, 'x reason) promise) \<Rightarrow> string
     \<Rightarrow> (chat, 'x, string \<times> chat) exec_state" where
  "createChat env db partnerID = new_Promise (\<lambda>s.
     case store_user env of
       None \<Rightarrow> (Throws TypeError, s)
     | Some user \<Rightarrow>
         let chat = \<lparr>c_id = generateId env, c_to = partnerID, c_from = u_id user,
                     c_creation = new_Date env\<rparr>;
             (p1, s1) = (db ''chats'' chat, issue (''chats'', chat) s);
             (p2, s2) = promise_then p1 (\<lambda>res s. (Returns (), resolve chat s)) s1;
             (p3, s3) = promise_catch p2 (\<lambda>error s. (Returns (), reject error s)) s2
         in (Returns (), s3))"

definition sendMessage ::
  "ambient \<Rightarrow> (string \<Rightarrow> message \<Rightarrow> ('d response, 'x reason) promise) \<Rightarrow> string \<Rightarrow> string
     \<Rightarrow> ('d response, 'x, string \<times> message) exec_state" where
  "sendMessage env db chatID text = new_Promise (\<lambda>s.
     case store_user env of
       None \<Rightarrow> (Throws TypeError, s)
     | Some user \<Rightarrow>
         let doc = \<lparr>m_id = generateId env, m_text = text, m_read = False,
                    m_chat_id = chatID, m_from = u_id user, m_time = new_Date env\<rparr>;
             (p1, s1) = (db ''messages'' doc, issue (''messages'', doc) s);
             (p2, s2) = promise_then p1
                 (\<lambda>res s.
                    let s' = (if status res \<noteq> 200
                              then reject (Str ''User not allowed to sign in'') s else s)
                    in (Returns (), resolve res s')) s1;
             (p3, s3) = promise_catch p2 (\<lambda>error s. (Returns (), reject error s)) s2
         in (Returns (), s3))"

section \<open>Filter conditions\<close>

text \<open>
  \<^verbatim>\<open>cond(f1, op, f2)\<close> and \<^verbatim>\<open>or(c1, ..., cn)\<close> of the backend client build a
  condition; the service only builds conditions and hands them to the backend.
\<close>

datatype cond = Cond string string string | Or "cond list"

text \<open>
  Modelled from the spec: the meaning of a condition is given by the backend (the
  predicate algebra of the spec's external interfaces, not code of this repository):
  \<^verbatim>\<open>==\<close> holds when the record's field has the given value, \<^verbatim>\<open>!=\<close> when it does
  not, and \<^verbatim>\<open>or\<close> when one of its conditions holds, at any nesting. A record is seen
  through its string-valued fields.
\<close>

fun satisfies :: "(string \<Rightarrow> string option) \<Rightarrow> cond \<Rightarrow> bool" where
  "satisfies r (Cond f1 ev f2) =
     (if ev = ''=='' then r f1 = Some f2
      else if ev = ''!='' then r f1 \<noteq> Some f2
      else False)"
| "satisfies r (Or cs) = list_ex (satisfies r) cs"

definition user_fields :: "user \<Rightarrow> string \<Rightarrow> string option" where
  "user_fields u f =
     (if f = ''_id'' then Some (u_id u)
      else if f = ''name'' then Some (u_name u)
      else None)"

definition chat_fields :: "chat \<Rightarrow> string \<Rightarrow> string option" where
  "chat_fields c f =
     (if f = ''_id'' then Some (c_id c)
      else if f = ''to'' then Some (c_to c)
      else if f = ''from'' then Some (c_from c)
      else None)"

section \<open>updateMessage\<close>

text \<open>
  \<open>db\<close> stands for
  \<^verbatim>\<open>config.db.updateOne(collection).where(condition).set(doc).apply()\<close>.
  The \<^verbatim>\<open>catch\<close> callback rethrows: that rejects the promise \<^verbatim>\<open>catch\<close> derives, and
  never calls \<^verbatim>\<open>reject\<close>.
\<close>

definition updateMessage ::
  "(string \<Rightarrow> cond \<Rightarrow> message \<Rightarrow> ('d response, 'x reason) promise) \<Rightarrow> message
     \<Rightarrow> ('d response, 'x, string \<times> cond \<times> message) exec_state" where
  "updateMessage db message = new_Promise (\<lambda>s.
     let condition = Cond ''_id'' ''=='' (m_id message);
         (p1, s1) = (db ''messages'' condition message,
                     issue (''messages'', condition, message) s);
         (p2, s2) = promise_then p1 (\<lambda>res s. (Returns (), resolve res s)) s1;
         (p3, s3) = promise_catch p2 (\<lambda>err s. (Throws err, s)) s2
     in (Returns (), s3))"

section \<open>Plain objects used as tables\<close>

text \<open>
  The tables are object literals \<^verbatim>\<open>{}\<close>, whose prototype is \<^verbatim>\<open>Object.prototype\<close>.
  Reading \<^verbatim>\<open>obj[key]\<close> gives the object's own property when it has one, and
  otherwise what \<^verbatim>\<open>Object.prototype\<close> has under that name: a function, or for
  \<^verbatim>\<open>__proto__\<close> the prototype object itself. These are the names it has.
\<close>

definition Object_prototype_names :: "string list" where
  "Object_prototype_names =
     [''constructor'', ''hasOwnProperty'', ''isPrototypeOf'', ''propertyIsEnumerable'',
      ''toLocaleString'', ''toString'', ''valueOf'', ''__proto__'',
      ''__defineGetter__'', ''__defineSetter__'', ''__lookupGetter__'',
      ''__lookupSetter__'']"

datatype 'v property = Undefined | Own 'v | Inherited

definition get_property :: "(string \<rightharpoonup> 'v) \<Rightarrow> string \<Rightarrow> 'v property" where
  "get_property obj key =
     (case obj key of
        Some v \<Rightarrow> Own v
      | None \<Rightarrow> if key \<in> set Object_prototype_names then Inherited else Undefined)"

text \<open>
  Writing \<^verbatim>\<open>obj[key] = v\<close> with an object \<open>v\<close> creates or overwrites the own property
  \<open>key\<close>, except for \<^verbatim>\<open>__proto__\<close>: that assignment runs the setter inherited from
  \<^verbatim>\<open>Object.prototype\<close>, which makes \<open>v\<close> the prototype of \<open>obj\<close> and creates no
  property. So an object is its own properties and its prototype, \<open>None\<close> standing for
  \<^verbatim>\<open>Object.prototype\<close>.
\<close>

record 'v js_object =
  own :: "string \<rightharpoonup> 'v"
  proto :: "'v option"

definition empty_object :: "'v js_object" where
  "empty_object = \<lparr>own = Map.empty, proto = None\<rparr>"

definition set_property :: "'v js_object \<Rightarrow> string \<Rightarrow> 'v \<Rightarrow> 'v js_object" where
  "set_property obj key v =
     (if key = ''__proto__'' then obj\<lparr>proto := Some v\<rparr>
      else obj\<lparr>own := (own obj)(key \<mapsto> v)\<rparr>)"

section \<open>convertRawUsersToHasedObject\<close>

definition convertRawUsersToHasedObject :: "user list \<Rightarrow> user js_object" where
  "convertRawUsersToHasedObject rawUsers =
     (let users = foldl (\<lambda>users elt. set_property users (u_id elt) elt) empty_object rawUsers
      in set_property users ''ALL'' \<lparr>u_id = ''ALL'', u_name = ''ALL''\<rparr>)"

section \<open>getMessages, getUsers, getChats\<close>

text \<open>
  The loop of getMessages over \<^verbatim>\<open>res.data.result\<close>. \<^verbatim>\<open>messages[key]\<close> is read
  through the prototype: where it is undefined an empty array is stored first, where it
  is an own array the element is pushed, and where it is inherited from
  \<^verbatim>\<open>Object.prototype\<close> it is truthy and has no \<^verbatim>\<open>push\<close>, so the call throws a
  \<open>TypeError\<close> and the loop ends there. An assignment happens only under a key that
  reads undefined, hence never under \<^verbatim>\<open>__proto__\<close>: own properties are all there is to
  track.
\<close>

fun group_messages ::
  "message list \<Rightarrow> (string \<rightharpoonup> message list) \<Rightarrow> 'x reason + (string \<rightharpoonup> message list)" where
  "group_messages [] messages = Inr messages"
| "group_messages (elt # rest) messages =
     (let key = m_chat_id elt in
      case get_property messages key of
        Undefined \<Rightarrow> group_messages rest (messages(key \<mapsto> [] @ [elt]))
      | Own arr \<Rightarrow> group_messages rest (messages(key \<mapsto> arr @ [elt]))
      | Inherited \<Rightarrow> Inl TypeError)"

text \<open>
  \<open>db\<close> stands for \<^verbatim>\<open>config.db.get(collection).where(condition).apply()\<close>; the data
  of its response is \<^verbatim>\<open>res.data.result\<close>.
\<close>

definition getMessages ::
  "ambient \<Rightarrow> (string \<Rightarrow> cond \<Rightarrow> (message list response, 'x reason) promise)
     \<Rightarrow> (string \<rightharpoonup> message list, 'x, string \<times> cond) exec_state" where
  "getMessages env db = new_Promise (\<lambda>s.
     case store_user env of
       None \<Rightarrow> (Throws TypeError, s)
     | Some user \<Rightarrow>
         let condition = Or [Cond ''to'' ''=='' (u_id user), Cond ''from'' ''=='' (u_id user)];
             (p1, s1) = (db ''messages'' condition, issue (''messages'', condition) s);
             (p2, s2) = promise_then p1
                 (\<lambda>res s.
                    if status res = 200 then
                      (case group_messages (data res) Map.empty of
                         Inl e \<Rightarrow> (Throws e, s)
                       | Inr messages \<Rightarrow> (Returns (), resolve (messages(''ALL'' \<mapsto> [])) s))
                    else (Returns (), s)) s1;
             (p3, s3) = promise_catch p2 (\<lambda>err s. (Returns (), reject err s)) s2
         in (Returns (), s3))"

definition getUsers ::
  "ambient \<Rightarrow> (string \<Rightarrow> cond \<Rightarrow> (user list response, 'x reason) promise)
     \<Rightarrow> (user js_object, 'x, string \<times> cond) exec_state" where
  "getUsers env db = new_Promise (\<lambda>s.
     case store_user env of
       None \<Rightarrow> (Throws TypeError, s)
     | Some user \<Rightarrow>
         let condition = Cond ''_id'' ''!='' (u_id user);
             (p1, s1) = (db ''users'' condition, issue (''users'', condition) s);
             (p2, s2) = promise_then p1
                 (\<lambda>res s.
                    if status res = 200 then
                      (let users = convertRawUsersToHasedObject (data res)
                       in (Returns (), resolve users s))
                    else (Returns (), s)) s1;
             (p3, s3) = promise_catch p2 (\<lambda>err s. (Returns (), reject err s)) s2
         in (Returns (), s3))"

definition getChats ::
  "ambient \<Rightarrow> (string \<Rightarrow> cond \<Rightarrow> (chat list response, 'x reason) promise)
     \<Rightarrow> (chat list, 'x, string \<times> cond) exec_state" where
  "getChats env db = new_Promise (\<lambda>s.
     case store_user env of
       None \<Rightarrow> (Throws TypeError, s)
     | Some user \<Rightarrow>
         let condition = Or [Cond ''from'' ''=='' (u_id user), Cond ''to'' ''=='' (u_id user),
                             Cond ''to'' ''=='' ''ALL''];
             (p1, s1) = (db ''chats'' condition, issue (''chats'', condition) s);
             (p2, s2) = promise_then p1
                 (\<lambda>res s.
                    if status res = 200 then (Returns (), resolve (data res) s)
                    else (Returns (), s)) s1;
             (p3, s3) = promise_catch p2 (\<lambda>err s. (Returns (), reject err s)) s2
         in (Returns (), s3))"

section \<open>Realtime triggers\<close>

text \<open>
  The realtime functions return the live query they build,
  \<^verbatim>\<open>config.db.liveQuery(collection).where(condition)\<close>: a collection and a condition.
  startChatsRealtime reads \<^verbatim>\<open>user._id\<close> outside any promise, so an absent user is a
  thrown \<open>TypeError\<close>.
\<close>

definition startChatsRealtime :: "ambient \<Rightarrow> 'x reason + string \<times> cond" where
  "startChatsRealtime env =
     (case store_user env of
        None \<Rightarrow> Inl TypeError
      | Some user \<Rightarrow>
          let condition = Or [Or [Cond ''to'' ''=='' (u_id user), Cond ''from'' ''=='' (u_id user),
                                  Cond ''to'' ''=='' ''ALL'']]
          in Inr (''chats'', condition))"

section \<open>Specification vocabulary and sample inputs\<close>

text \<open>
  The grouping that the documentation of getMessages describes, for comparison with the
  loop: under every chat id the messages of that chat, in the order of the list, after
  whatever the table held before.
\<close>

definition grouped_by_chat ::
  "message list \<Rightarrow> (string \<rightharpoonup> message list) \<Rightarrow> (string \<rightharpoonup> message list)" where
  "grouped_by_chat msgs acc =
     (\<lambda>k. let new = filter (\<lambda>m. m_chat_id m = k) msgs in
          if new = [] then acc k
          else Some ((case acc k of None \<Rightarrow> [] | Some a \<Rightarrow> a) @ new))"

text \<open>Concrete inputs for the instances below.\<close>

abbreviation ann :: user where
  "ann \<equiv> \<lparr>u_id = ''u1'', u_name = ''Ann''\<rparr>"

abbreviation bob :: user where
  "bob \<equiv> \<lparr>u_id = ''u2'', u_name = ''Bob''\<rparr>"

abbreviation signed_in :: ambient where
  "signed_in \<equiv> \<lparr>store_user = Some ann, generateId = ''g1'', new_Date = 7\<rparr>"

abbreviation hello :: message where
  "hello \<equiv> \<lparr>m_id = ''g1'', m_text = ''hello'', m_read = False, m_chat_id = ''c1'',
             m_from = ''u1'', m_time = 7\<rparr>"

abbreviation with_status :: "int \<Rightarrow> 'd \<Rightarrow> 'a \<Rightarrow> 'b \<Rightarrow> ('d response, string reason) promise" where
  "with_status n d \<equiv> (\<lambda>collection doc. Fulfilled \<lparr>status = n, data = d\<rparr>)"

abbreviation offline :: "'a \<Rightarrow> 'b \<Rightarrow> ('d response, string reason) promise" where
  "offline \<equiv> (\<lambda>collection doc. Rejected (Err ''offline''))"

abbreviation stray :: message where
  "stray \<equiv> \<lparr>m_id = ''m9'', m_text = ''hi'', m_read = False, m_chat_id = ''constructor'',
             m_from = ''u1'', m_time = 3\<rparr>"

section \<open>What each operation computes\<close>

text \<open>
  Unfolding the promise plumbing once: the calls each operation issues and the eventual
  state of the promise it returns, by the outcome of the backend call.
\<close>

lemmas promise_defs = new_Promise_def promise_then_def promise_catch_def resolve_def
  reject_def issue_def

lemma createChat_eval:
  "createChat env db partnerID =
     (case store_user env of
        None \<Rightarrow> \<lparr>outer = Rejected TypeError, calls = []\<rparr>
      | Some user \<Rightarrow>
          (let chat = \<lparr>c_id = generateId env, c_to = partnerID, c_from = u_id user,
                       c_creation = new_Date env\<rparr>
           in \<lparr>outer = (case db ''chats'' chat of
                          Pending \<Rightarrow> Pending
                        | Fulfilled res \<Rightarrow> Fulfilled chat
                        | Rejected e \<Rightarrow> Rejected e),
               calls = [(''chats'', chat)]\<rparr>))"
  by (simp add: createChat_def promise_defs Let_def split: option.splits promise.splits)

lemma sendMessage_eval:
  "sendMessage env db chatID text =
     (case store_user env of
        None \<Rightarrow> \<lparr>outer = Rejected TypeError, calls = []\<rparr>
      | Some user \<Rightarrow>
          (let doc = \<lparr>m_id = generateId env, m_text = text, m_read = False,
                    m_chat_id = chatID, m_from = u_id user, m_time = new_Date env\<rparr>
           in \<lparr>outer = (case db ''messages'' doc of
                          Pending \<Rightarrow> Pending
                        | Fulfilled res \<Rightarrow> if status res \<noteq> 200 then Rejected (Str ''User not allowed to sign in'') else Fulfilled res
                        | Rejected e \<Rightarrow> Rejected e),
               calls = [(''messages'', doc)]\<rparr>))"
  by (simp add: sendMessage_def promise_defs Let_def split: option.splits promise.splits)

lemma updateMessage_eval:
  "updateMessage db message =
     (let condition = Cond ''_id'' ''=='' (m_id message)
      in \<lparr>outer = (case db ''messages'' condition message of
                          Pending \<Rightarrow> Pending
                        | Fulfilled res \<Rightarrow> Fulfilled res
                        | Rejected e \<Rightarrow> Pending),
               calls = [(''messages'', condition, message)]\<rparr>)"
  by (simp add: updateMessage_def promise_defs Let_def split: option.splits promise.splits)

lemma getChats_eval:
  "getChats env db =
     (case store_user env of
        None \<Rightarrow> \<lparr>outer = Rejected TypeError, calls = []\<rparr>
      | Some user \<Rightarrow>
          (let condition = Or [Cond ''from'' ''=='' (u_id user), Cond ''to'' ''=='' (u_id user),
                             Cond ''to'' ''=='' ''ALL'']
           in \<lparr>outer = (case db ''chats'' condition of
                          Pending \<Rightarrow> Pending
                        | Fulfilled res \<Rightarrow> if status res = 200 then Fulfilled (data res) else Pending
                        | Rejected e \<Rightarrow> Rejected e),
               calls = [(''chats'', condition)]\<rparr>))"
  by (simp add: getChats_def promise_defs Let_def split: option.splits promise.splits)

lemma getUsers_eval:
  "getUsers env db =
     (case store_user env of
        None \<Rightarrow> \<lparr>outer = Rejected TypeError, calls = []\<rparr>
      | Some user \<Rightarrow>
          (let condition = Cond ''_id'' ''!='' (u_id user)
           in \<lparr>outer = (case db ''users'' condition of
                          Pending \<Rightarrow> Pending
                        | Fulfilled res \<Rightarrow> if status res = 200 then Fulfilled (convertRawUsersToHasedObject (data res)) else Pending
                        | Rejected e \<Rightarrow> Rejected e),
               calls = [(''users'', condition)]\<rparr>))"
  by (simp add: getUsers_def promise_defs Let_def split: option.splits promise.splits)

lemma getMessages_eval:
  "getMessages env db =
     (case store_user env of
        None \<Rightarrow> \<lparr>outer = Rejected TypeError, calls = []\<rparr>
      | Some user \<Rightarrow>
          (let condition = Or [Cond ''to'' ''=='' (u_id user), Cond ''from'' ''=='' (u_id user)]
           in \<lparr>outer = (case db ''messages'' condition of
                          Pending \<Rightarrow> Pending
                        | Fulfilled res \<Rightarrow> if status res = 200 then
                             (case group_messages (data res) Map.empty of
                                Inl e \<Rightarrow> Rejected e
                              | Inr messages \<Rightarrow> Fulfilled (messages(''ALL'' \<mapsto> [])))
                            else Pending
                        | Rejected e \<Rightarrow> Rejected e),
               calls = [(''messages'', condition)]\<rparr>))"
  by (simp add: getMessages_def promise_defs Let_def split: option.splits promise.splits sum.splits)


section \<open>The tables\<close>

lemma get_property_simps:
  "get_property obj key = Undefined \<longleftrightarrow> obj key = None \<and> key \<notin> set Object_prototype_names"
  "get_property obj key = Inherited \<longleftrightarrow> obj key = None \<and> key \<in> set Object_prototype_names"
  "get_property obj key = Own v \<longleftrightarrow> obj key = Some v"
  by (auto simp: get_property_def split: option.splits)

lemma group_messages_char:
  "(group_messages msgs acc :: 'x reason + (string \<rightharpoonup> message list)) =
     (if \<exists>m \<in> set msgs. m_chat_id m \<in> set Object_prototype_names \<and> acc (m_chat_id m) = None
      then Inl TypeError else Inr (grouped_by_chat msgs acc))"
proof (induction msgs arbitrary: acc)
  case Nil
  show ?case by (simp add: grouped_by_chat_def)
next
  case (Cons elt rest)
  let ?k = "m_chat_id elt"
  let ?G = "group_messages :: _ \<Rightarrow> _ \<Rightarrow> 'x reason + (string \<rightharpoonup> message list)"
  let ?bad = "\<lambda>ms a. \<exists>m \<in> set ms. m_chat_id m \<in> set Object_prototype_names \<and> a (m_chat_id m) = None"
  show ?case
  proof (cases "get_property acc ?k")
    case Undefined
    let ?acc' = "acc(?k \<mapsto> [elt])"
    from Undefined have a: "acc ?k = None" "?k \<notin> set Object_prototype_names"
      by (simp_all add: get_property_simps)
    have g: "grouped_by_chat rest ?acc' = grouped_by_chat (elt # rest) acc"
      using a by (auto simp: grouped_by_chat_def Let_def fun_eq_iff)
    have c: "?bad rest ?acc' = ?bad (elt # rest) acc"
    proof
      assume "?bad rest ?acc'"
      then obtain m where m: "m \<in> set rest" "m_chat_id m \<in> set Object_prototype_names"
        "?acc' (m_chat_id m) = None" by blast
      from m(3) have "acc (m_chat_id m) = None" by (simp split: if_splits)
      with m show "?bad (elt # rest) acc" by auto
    next
      assume "?bad (elt # rest) acc"
      then obtain m where m: "m \<in> set (elt # rest)" "m_chat_id m \<in> set Object_prototype_names"
        "acc (m_chat_id m) = None" by blast
      with a have "m_chat_id m \<noteq> ?k" by auto
      with m have "m \<in> set rest" "?acc' (m_chat_id m) = None" by auto
      with m(2) show "?bad rest ?acc'" by blast
    qed
    have "?G (elt # rest) acc = ?G rest ?acc'"
      using Undefined by (simp add: Let_def)
    also have "\<dots> = (if ?bad rest ?acc' then Inl TypeError else Inr (grouped_by_chat rest ?acc'))"
      by (rule Cons.IH)
    also have "\<dots> = (if ?bad (elt # rest) acc then Inl TypeError else Inr (grouped_by_chat (elt # rest) acc))"
      by (simp only: c g)
    finally show ?thesis .
  next
    case (Own arr)
    let ?acc' = "acc(?k \<mapsto> arr @ [elt])"
    from Own have a: "acc ?k = Some arr"
      by (simp add: get_property_simps)
    have g: "grouped_by_chat rest ?acc' = grouped_by_chat (elt # rest) acc"
      using a by (auto simp: grouped_by_chat_def Let_def fun_eq_iff)
    have c: "?bad rest ?acc' = ?bad (elt # rest) acc"
    proof
      assume "?bad rest ?acc'"
      then obtain m where m: "m \<in> set rest" "m_chat_id m \<in> set Object_prototype_names"
        "?acc' (m_chat_id m) = None" by blast
      from m(3) have "acc (m_chat_id m) = None" by (simp split: if_splits)
      with m show "?bad (elt # rest) acc" by auto
    next
      assume "?bad (elt # rest) acc"
      then obtain m where m: "m \<in> set (elt # rest)" "m_chat_id m \<in> set Object_prototype_names"
        "acc (m_chat_id m) = None" by blast
      with a have "m_chat_id m \<noteq> ?k" by auto
      with m have "m \<in> set rest" "?acc' (m_chat_id m) = None" by auto
      with m(2) show "?bad rest ?acc'" by blast
    qed
    have "?G (elt # rest) acc = ?G rest ?acc'"
      using Own by (simp add: Let_def)
    also have "\<dots> = (if ?bad rest ?acc' then Inl TypeError else Inr (grouped_by_chat rest ?acc'))"
      by (rule Cons.IH)
    also have "\<dots> = (if ?bad (elt # rest) acc then Inl TypeError else Inr (grouped_by_chat (elt # rest) acc))"
      by (simp only: c g)
    finally show ?thesis .
  next
    case Inherited
    then have a: "acc ?k = None" "?k \<in> set Object_prototype_names"
      by (simp_all add: get_property_simps)
    have "?bad (elt # rest) acc" using a by auto
    moreover have "?G (elt # rest) acc = Inl TypeError"
      using Inherited by (simp add: Let_def)
    ultimately show ?thesis by (simp only: if_True)
  qed
qed

lemma foldl_set_property_own:
  "key \<noteq> ''__proto__'' \<Longrightarrow>
   own (foldl (\<lambda>users elt. set_property users (u_id elt) elt) obj rawUsers) key =
     (if filter (\<lambda>elt. u_id elt = key) rawUsers = [] then own obj key
      else Some (last (filter (\<lambda>elt. u_id elt = key) rawUsers)))"
  by (induction rawUsers rule: rev_induct) (auto simp: set_property_def)

lemma foldl_set_property_proto_key:
  "own (foldl (\<lambda>users elt. set_property users (u_id elt) elt) obj rawUsers) ''__proto__'' = own obj ''__proto__''"
  by (induction rawUsers rule: rev_induct) (auto simp: set_property_def)

lemma own_set_property:
  "own (set_property obj key v) key' =
     (if key = ''__proto__'' then own obj key'
      else if key' = key then Some v else own obj key')"
  by (simp add: set_property_def)

lemma convert_own:
  "own (convertRawUsersToHasedObject rawUsers) key =
     (if key = ''ALL'' then Some \<lparr>u_id = ''ALL'', u_name = ''ALL''\<rparr>
      else if key = ''__proto__'' \<or> filter (\<lambda>elt. u_id elt = key) rawUsers = [] then None
      else Some (last (filter (\<lambda>elt. u_id elt = key) rawUsers)))"
  by (cases "key = ''__proto__''")
     (simp_all add: convertRawUsersToHasedObject_def Let_def own_set_property
        foldl_set_property_own foldl_set_property_proto_key empty_object_def)

lemma convert_dom:
  "dom (own (convertRawUsersToHasedObject rawUsers)) = insert ''ALL'' (u_id ` set rawUsers - {''__proto__''})"
  by (auto simp: convert_own dom_def filter_empty_conv split: if_splits)



lemma foldl_set_property_proto:
  "proto (foldl (\<lambda>users elt. set_property users (u_id elt) elt) obj rawUsers) =
     (if filter (\<lambda>elt. u_id elt = ''__proto__'') rawUsers = [] then proto obj
      else Some (last (filter (\<lambda>elt. u_id elt = ''__proto__'') rawUsers)))"
  by (induction rawUsers rule: rev_induct) (auto simp: set_property_def)

lemma proto_set_property:
  "proto (set_property obj key v) = (if key = ''__proto__'' then Some v else proto obj)"
  by (simp add: set_property_def)

lemma convert_proto:
  "proto (convertRawUsersToHasedObject rawUsers) =
     (if filter (\<lambda>elt. u_id elt = ''__proto__'') rawUsers = [] then None
      else Some (last (filter (\<lambda>elt. u_id elt = ''__proto__'') rawUsers)))"
  by (simp add: convertRawUsersToHasedObject_def Let_def proto_set_property
        foldl_set_property_proto empty_object_def)

lemma filter_distinct_key:
  "distinct (map f xs) \<Longrightarrow> x \<in> set xs \<Longrightarrow> filter (\<lambda>y. f y = f x) xs = [x]"
proof (induction xs)
  case Nil
  then show ?case by simp
next
  case (Cons a xs)
  show ?case
  proof (cases "a = x")
    case True
    have "f x \<notin> f ` set xs" using Cons.prems(1) True by simp
    then have "\<forall>y \<in> set xs. f y \<noteq> f x" by (metis imageI)
    then have "filter (\<lambda>y. f y = f x) xs = []" by (simp add: filter_empty_conv)
    then show ?thesis using True by simp
  next
    case False
    then have x: "x \<in> set xs" using Cons.prems(2) by simp
    then have "f a \<noteq> f x" using Cons.prems(1) by auto
    then show ?thesis using Cons.IH x Cons.prems(1) by simp
  qed
qed

lemma getMessages_groups_by_chat:
  assumes "calls (getMessages env db) = [(collection, condition)]"
    and "db collection condition = Fulfilled res" and "status res = 200"
    and "\<forall>m \<in> set (data res). m_chat_id m \<notin> set Object_prototype_names"
  shows "outer (getMessages env db)
           = Fulfilled ((grouped_by_chat (data res) Map.empty)(''ALL'' \<mapsto> []))"
  using assms
  by (cases "store_user env") (auto simp: getMessages_eval group_messages_char Let_def)


lemma getMessages_empty_result:
  assumes "calls (getMessages env db) = [(collection, condition)]"
    and "db collection condition = Fulfilled res" and "status res = 200" and "data res = []"
  shows "outer (getMessages env db) = Fulfilled [''ALL'' \<mapsto> []]"
  using assms
  by (cases "store_user env") (auto simp: getMessages_eval Let_def)

section \<open>Claims\<close>

text \<open>
  Claim C1. Whatever chat id and text sendMessage is called with: once its insert has been
  issued, a response whose status is not 200 leaves the returned promise rejected with the
  string \<^verbatim>\<open>"User not allowed to sign in"\<close> (the later \<^verbatim>\<open>resolve(res)\<close> finds the
  promise settled and changes nothing, so the promise neither hangs nor resolves), and a
  rejection of the insert leaves it rejected with that same reason.
\<close>

theorem sendMessage_rejects_on_bad_status_or_transport_error:
  assumes "calls (sendMessage env db chatID text') = [(collection, doc)]"
  shows "(db collection doc = Fulfilled res \<and> status res \<noteq> 200 \<longrightarrow>
            outer (sendMessage env db chatID text') = Rejected (Str ''User not allowed to sign in''))
       \<and> (db collection doc = Rejected e \<longrightarrow>
            outer (sendMessage env db chatID text') = Rejected e)"
  using assms by (cases "store_user env") (auto simp: sendMessage_eval Let_def)

theorem sendMessage_rejects_witness:
  "calls (sendMessage signed_in (with_status 403 ()) ''c1'' ''hello'') = [(''messages'', hello)]
   \<and> outer (sendMessage signed_in (with_status 403 ()) ''c1'' ''hello'')
       = Rejected (Str ''User not allowed to sign in'')
   \<and> calls (sendMessage signed_in (offline :: _ \<Rightarrow> _ \<Rightarrow> (unit response, _) promise) ''c1'' ''hello'')
       = [(''messages'', hello)]
   \<and> outer (sendMessage signed_in (offline :: _ \<Rightarrow> _ \<Rightarrow> (unit response, _) promise) ''c1'' ''hello'')
       = Rejected (Err ''offline'')"
  using sendMessage_rejects_on_bad_status_or_transport_error
          [where env = signed_in and db = "with_status 403 ()" and chatID = "''c1''"
             and text' = "''hello''" and collection = "''messages''" and doc = hello
             and res = "\<lparr>status = 403, data = ()\<rparr>"]
        sendMessage_rejects_on_bad_status_or_transport_error
          [where env = signed_in
             and db = "offline :: _ \<Rightarrow> _ \<Rightarrow> (unit response, _) promise"
             and chatID = "''c1''" and text' = "''hello''" and collection = "''messages''"
             and doc = hello and e = "Err ''offline''"]
  by (simp add: sendMessage_eval)

text \<open>
  Claim C2. For getChats, getUsers and getMessages, once the query has been issued and the
  backend has fulfilled it with a response: on status 200 getChats resolves with the raw
  result list and getUsers with the user table, and getMessages settles by what its
  grouping loop yields (it resolves with the grouped table with \<^verbatim>\<open>"ALL"\<close> set to the
  empty array); on any other status no callback settles the returned promise and none
  throws, so it stays pending: it neither resolves nor rejects. Hence each of the three
  resolves only when the status is 200.
\<close>

theorem queries_resolve_only_on_status_200:
  "(calls (getChats env dbc) = [(collection1, condition1)]
      \<and> dbc collection1 condition1 = Fulfilled res1 \<longrightarrow>
        (status res1 = 200 \<longrightarrow> outer (getChats env dbc) = Fulfilled (data res1))
      \<and> (status res1 \<noteq> 200 \<longrightarrow> outer (getChats env dbc) = Pending))
   \<and> (calls (getUsers env dbu) = [(collection2, condition2)]
      \<and> dbu collection2 condition2 = Fulfilled res2 \<longrightarrow>
        (status res2 = 200 \<longrightarrow>
           outer (getUsers env dbu) = Fulfilled (convertRawUsersToHasedObject (data res2)))
      \<and> (status res2 \<noteq> 200 \<longrightarrow> outer (getUsers env dbu) = Pending))
   \<and> (calls (getMessages env dbm) = [(collection3, condition3)]
      \<and> dbm collection3 condition3 = Fulfilled res3 \<longrightarrow>
        (status res3 = 200 \<longrightarrow>
           outer (getMessages env dbm)
             = (case group_messages (data res3) Map.empty of
                  Inl e \<Rightarrow> Rejected e
                | Inr messages \<Rightarrow> Fulfilled (messages(''ALL'' \<mapsto> []))))
      \<and> (status res3 \<noteq> 200 \<longrightarrow> outer (getMessages env dbm) = Pending))"
  by (cases "store_user env")
     (auto simp: getChats_eval getUsers_eval getMessages_eval Let_def)

theorem queries_witness:
  "outer (getChats signed_in (with_status 200 [\<lparr>c_id = ''c1'', c_to = ''u2'', c_from = ''u1'', c_creation = 1\<rparr>]))
     = Fulfilled [\<lparr>c_id = ''c1'', c_to = ''u2'', c_from = ''u1'', c_creation = 1\<rparr>]
   \<and> outer (getChats signed_in (with_status 404 [])) = Pending
   \<and> outer (getUsers signed_in (with_status 200 [bob])) = Fulfilled (convertRawUsersToHasedObject [bob])
   \<and> outer (getUsers signed_in (with_status 404 [])) = Pending
   \<and> outer (getMessages signed_in (with_status 200 [hello])) = Fulfilled [''c1'' \<mapsto> [hello], ''ALL'' \<mapsto> []]
   \<and> outer (getMessages signed_in (with_status 404 [])) = Pending"
  using queries_resolve_only_on_status_200
          [where env = signed_in
             and dbc = "with_status 200 [\<lparr>c_id = ''c1'', c_to = ''u2'', c_from = ''u1'', c_creation = 1\<rparr>]"
             and ?collection1.0 = "''chats''"
             and ?condition1.0 = "Or [Cond ''from'' ''=='' ''u1'', Cond ''to'' ''=='' ''u1'', Cond ''to'' ''=='' ''ALL'']"
             and ?res1.0 = "\<lparr>status = 200, data = [\<lparr>c_id = ''c1'', c_to = ''u2'', c_from = ''u1'', c_creation = 1\<rparr>]\<rparr>"
             and dbu = "with_status 200 [bob]"
             and ?collection2.0 = "''users''"
             and ?condition2.0 = "Cond ''_id'' ''!='' ''u1''"
             and ?res2.0 = "\<lparr>status = 200, data = [bob]\<rparr>"
             and dbm = "with_status 200 [hello]"
             and ?collection3.0 = "''messages''"
             and ?condition3.0 = "Or [Cond ''to'' ''=='' ''u1'', Cond ''from'' ''=='' ''u1'']"
             and ?res3.0 = "\<lparr>status = 200, data = [hello]\<rparr>"]
        queries_resolve_only_on_status_200
          [where env = signed_in
             and dbc = "with_status 404 []"
             and ?collection1.0 = "''chats''"
             and ?condition1.0 = "Or [Cond ''from'' ''=='' ''u1'', Cond ''to'' ''=='' ''u1'', Cond ''to'' ''=='' ''ALL'']"
             and ?res1.0 = "\<lparr>status = 404, data = []\<rparr>"
             and dbu = "with_status 404 []"
             and ?collection2.0 = "''users''"
             and ?condition2.0 = "Cond ''_id'' ''!='' ''u1''"
             and ?res2.0 = "\<lparr>status = 404, data = []\<rparr>"
             and dbm = "with_status 404 []"
             and ?collection3.0 = "''messages''"
             and ?condition3.0 = "Or [Cond ''to'' ''=='' ''u1'', Cond ''from'' ''=='' ''u1'']"
             and ?res3.0 = "\<lparr>status = 404, data = []\<rparr>"]
  by (simp add: getChats_eval getUsers_eval getMessages_eval get_property_def
        Object_prototype_names_def Let_def)

text \<open>
  Claim C3, evaluated where the backend call fails. updateMessage issues the update of
  \<^verbatim>\<open>messages\<close> under the condition \<^verbatim>\<open>_id == message._id\<close> with the message as the
  patch. When that call rejects, the callback of \<^verbatim>\<open>catch\<close> rethrows: the rethrown error
  rejects only the promise that \<^verbatim>\<open>catch\<close> derives, \<^verbatim>\<open>reject\<close> is never called, and
  the promise updateMessage returned stays pending instead of rejecting with the error.
\<close>

theorem updateMessage_backend_failure_never_settles:
  "calls (updateMessage (\<lambda>collection condition doc. Rejected (Err ''offline'') :: (unit response, string reason) promise)
            (hello\<lparr>m_read := True\<rparr>))
     = [(''messages'', Cond ''_id'' ''=='' ''g1'', hello\<lparr>m_read := True\<rparr>)]
   \<and> outer (updateMessage (\<lambda>collection condition doc. Rejected (Err ''offline'') :: (unit response, string reason) promise)
            (hello\<lparr>m_read := True\<rparr>))
     = Pending"
  by (simp add: updateMessage_eval Let_def)

text \<open>
  Claim C4 as stated fails where two input users carry the same id: the later assignment
  overwrites the earlier one, so the first user's id does not map to that user's record.
\<close>

theorem convertRawUsers_duplicate_id_counterexample:
  "ann \<in> set [ann, ann\<lparr>u_name := ''Bob''\<rparr>]
   \<and> own (convertRawUsersToHasedObject [ann, ann\<lparr>u_name := ''Bob''\<rparr>]) (u_id ann) \<noteq> Some ann"
  by (simp add: convert_own)

text \<open>
  Claim C4, amended. convertRawUsersToHasedObject is a function of its input list alone.
  Its result always holds the sentinel \<^verbatim>\<open>{_id: "ALL", name: "ALL"}\<close> under \<^verbatim>\<open>"ALL"\<close>
  (stored last, over any input user of that id); it maps the id of every input user, other
  than \<^verbatim>\<open>"ALL"\<close> and \<^verbatim>\<open>"__proto__"\<close>, to the record of the last input user with that
  id, which is the user's own record when the input ids are distinct; its keys are
  \<^verbatim>\<open>"ALL"\<close> and the input ids other than \<^verbatim>\<open>"__proto__"\<close>; with no input id
  \<^verbatim>\<open>"__proto__"\<close> its prototype is untouched; and on the empty list it is the table
  with exactly one entry, under \<^verbatim>\<open>"ALL"\<close>.
\<close>

theorem convertRawUsers_table:
  "own (convertRawUsersToHasedObject rawUsers) ''ALL'' = Some \<lparr>u_id = ''ALL'', u_name = ''ALL''\<rparr>
   \<and> (elt \<in> set rawUsers \<and> u_id elt \<noteq> ''ALL'' \<and> u_id elt \<noteq> ''__proto__'' \<longrightarrow>
        own (convertRawUsersToHasedObject rawUsers) (u_id elt)
          = Some (last (filter (\<lambda>e. u_id e = u_id elt) rawUsers)))
   \<and> (distinct (map u_id rawUsers) \<and> elt \<in> set rawUsers \<and> u_id elt \<noteq> ''ALL''
        \<and> u_id elt \<noteq> ''__proto__'' \<longrightarrow>
        own (convertRawUsersToHasedObject rawUsers) (u_id elt) = Some elt)
   \<and> dom (own (convertRawUsersToHasedObject rawUsers))
        = insert ''ALL'' (u_id ` set rawUsers - {''__proto__''})
   \<and> (''__proto__'' \<notin> u_id ` set rawUsers \<longrightarrow>
        proto (convertRawUsersToHasedObject rawUsers) = None)
   \<and> convertRawUsersToHasedObject []
        = \<lparr>own = [''ALL'' \<mapsto> \<lparr>u_id = ''ALL'', u_name = ''ALL''\<rparr>], proto = None\<rparr>"
proof -
  have 1: "own (convertRawUsersToHasedObject rawUsers) ''ALL'' = Some \<lparr>u_id = ''ALL'', u_name = ''ALL''\<rparr>"
    by (simp add: convert_own)
  have 2: "elt \<in> set rawUsers \<and> u_id elt \<noteq> ''ALL'' \<and> u_id elt \<noteq> ''__proto__'' \<longrightarrow>
        own (convertRawUsersToHasedObject rawUsers) (u_id elt)
          = Some (last (filter (\<lambda>e. u_id e = u_id elt) rawUsers))"
    by (auto simp: convert_own filter_empty_conv)
  have 3: "distinct (map u_id rawUsers) \<and> elt \<in> set rawUsers \<and> u_id elt \<noteq> ''ALL''
        \<and> u_id elt \<noteq> ''__proto__'' \<longrightarrow>
        own (convertRawUsersToHasedObject rawUsers) (u_id elt) = Some elt"
    using filter_distinct_key[of u_id rawUsers elt] by (auto simp: convert_own)
  have 4: "convertRawUsersToHasedObject []
        = \<lparr>own = [''ALL'' \<mapsto> \<lparr>u_id = ''ALL'', u_name = ''ALL''\<rparr>], proto = None\<rparr>"
    by (simp add: convertRawUsersToHasedObject_def set_property_def empty_object_def)
  have 5: "''__proto__'' \<notin> u_id ` set rawUsers \<longrightarrow>
        proto (convertRawUsersToHasedObject rawUsers) = None"
    by (force simp: convert_proto filter_empty_conv)
  show ?thesis using 1 2 3 4 5 convert_dom[of rawUsers] by blast
qed

theorem convertRawUsers_table_witness:
  "distinct (map u_id [ann, bob]) \<and> bob \<in> set [ann, bob] \<and> u_id bob \<noteq> ''ALL''
   \<and> u_id bob \<noteq> ''__proto__''
   \<and> own (convertRawUsersToHasedObject [ann, bob]) ''u2'' = Some bob
   \<and> own (convertRawUsersToHasedObject [ann, bob]) ''ALL'' = Some \<lparr>u_id = ''ALL'', u_name = ''ALL''\<rparr>
   \<and> dom (own (convertRawUsersToHasedObject [ann, bob])) = {''ALL'', ''u1'', ''u2''}"
  using convertRawUsers_table[of "[ann, bob]" bob]
  by auto

text \<open>
  Claim C5. With a signed-in user \<open>u\<close>, createChat issues exactly one backend call, the
  insert into \<^verbatim>\<open>chats\<close> of the record it built (generated id, \<open>to\<close> the partner,
  \<open>from\<close> the id of \<open>u\<close>, creation time now); when that insert fulfils the returned
  promise resolves with this local record, not with the response, and when it rejects the
  returned promise rejects with the same reason.
\<close>

theorem createChat_inserts_once_and_resolves_with_local_record:
  assumes "store_user env = Some u"
  shows "let chat = \<lparr>c_id = generateId env, c_to = partnerID, c_from = u_id u,
                     c_creation = new_Date env\<rparr>
         in calls (createChat env db partnerID) = [(''chats'', chat)]
          \<and> (db ''chats'' chat = Fulfilled res \<longrightarrow>
               outer (createChat env db partnerID) = Fulfilled chat)
          \<and> (db ''chats'' chat = Rejected e \<longrightarrow>
               outer (createChat env db partnerID) = Rejected e)"
  using assms by (simp add: createChat_eval Let_def)

theorem createChat_witness:
  "store_user signed_in = Some ann
   \<and> calls (createChat signed_in (with_status 200 ''echo'') ''u2'')
       = [(''chats'', \<lparr>c_id = ''g1'', c_to = ''u2'', c_from = ''u1'', c_creation = 7\<rparr>)]
   \<and> outer (createChat signed_in (with_status 200 ''echo'') ''u2'')
       = Fulfilled \<lparr>c_id = ''g1'', c_to = ''u2'', c_from = ''u1'', c_creation = 7\<rparr>
   \<and> outer (createChat signed_in (offline :: _ \<Rightarrow> _ \<Rightarrow> (unit response, _) promise) ''u2'')
       = Rejected (Err ''offline'')"
  using createChat_inserts_once_and_resolves_with_local_record
          [where env = signed_in and u = ann and db = "with_status 200 ''echo''"
             and partnerID = "''u2''" and res = "\<lparr>status = 200, data = ''echo''\<rparr>"]
        createChat_inserts_once_and_resolves_with_local_record
          [where env = signed_in and u = ann
             and db = "offline :: _ \<Rightarrow> _ \<Rightarrow> (unit response, _) promise"
             and partnerID = "''u2''" and e = "Err ''offline''"]
  by (simp add: Let_def)

text \<open>
  Claim C6. With a signed-in user \<open>u\<close>, the condition getChats hands to the backend and
  the one startChatsRealtime puts on its live query are satisfied by a chat record exactly
  when the chat has \<open>from\<close> equal to the id of \<open>u\<close>, or \<open>to\<close> equal to it, or \<open>to\<close> equal
  to \<^verbatim>\<open>"ALL"\<close>; a chat with none of the three is excluded.
\<close>

theorem chats_condition_matches_own_and_broadcast_chats:
  assumes "store_user env = Some u"
  shows "let c = Or [Cond ''from'' ''=='' (u_id u), Cond ''to'' ''=='' (u_id u),
                     Cond ''to'' ''=='' ''ALL''];
             c' = Or [Or [Cond ''to'' ''=='' (u_id u), Cond ''from'' ''=='' (u_id u),
                          Cond ''to'' ''=='' ''ALL'']]
         in calls (getChats env db) = [(''chats'', c)]
          \<and> startChatsRealtime env = Inr (''chats'', c')
          \<and> satisfies (chat_fields ch) c
              = (c_from ch = u_id u \<or> c_to ch = u_id u \<or> c_to ch = ''ALL'')
          \<and> satisfies (chat_fields ch) c'
              = (c_from ch = u_id u \<or> c_to ch = u_id u \<or> c_to ch = ''ALL'')"
  using assms
  by (auto simp: getChats_eval startChatsRealtime_def chat_fields_def Let_def)

theorem chats_condition_witness:
  "store_user signed_in = Some ann
   \<and> satisfies (chat_fields \<lparr>c_id = ''c7'', c_to = ''ALL'', c_from = ''u2'', c_creation = 1\<rparr>)
        (Or [Cond ''from'' ''=='' ''u1'', Cond ''to'' ''=='' ''u1'', Cond ''to'' ''=='' ''ALL''])
   \<and> \<not> satisfies (chat_fields \<lparr>c_id = ''c8'', c_to = ''u3'', c_from = ''u2'', c_creation = 1\<rparr>)
        (Or [Or [Cond ''to'' ''=='' ''u1'', Cond ''from'' ''=='' ''u1'', Cond ''to'' ''=='' ''ALL'']])"
  using chats_condition_matches_own_and_broadcast_chats
          [where env = signed_in and u = ann
             and ch = "\<lparr>c_id = ''c7'', c_to = ''ALL'', c_from = ''u2'', c_creation = 1\<rparr>"]
        chats_condition_matches_own_and_broadcast_chats
          [where env = signed_in and u = ann
             and ch = "\<lparr>c_id = ''c8'', c_to = ''u3'', c_from = ''u2'', c_creation = 1\<rparr>"]
  by (simp add: Let_def chat_fields_def)

text \<open>
  Claim C7, evaluated on a successful result list holding one message whose chat id is
  \<^verbatim>\<open>"constructor"\<close>. The table is a plain object, so \<^verbatim>\<open>messages["constructor"]\<close>
  reads the function inherited from \<^verbatim>\<open>Object.prototype\<close>: it is truthy, no array is
  stored, and \<^verbatim>\<open>messages[key].push(elt)\<close> throws a \<open>TypeError\<close>, which the
  \<^verbatim>\<open>catch\<close> callback turns into a rejection. getMessages rejects instead of resolving
  with the grouped table. (For result lists free of such names it does resolve with the
  grouping, and on the empty list with the table holding \<^verbatim>\<open>"ALL"\<close> alone, as
  \<open>getMessages_groups_by_chat\<close> and \<open>getMessages_empty_result\<close> show.)
\<close>

theorem getMessages_rejects_on_inherited_property_name:
  "status \<lparr>status = 200, data = [stray]\<rparr> = 200
   \<and> outer (getMessages signed_in (with_status 200 [stray])) = Rejected TypeError"
  by (simp add: getMessages_eval get_property_def Object_prototype_names_def)

text \<open>
  Claim C8. With a signed-in user \<open>u\<close>, the condition getUsers hands to the backend is
  \<^verbatim>\<open>_id != u._id\<close>: a user record satisfies it exactly when its id differs from that of
  \<open>u\<close>, so of any stored collection it selects every record but those with the caller's
  id; and when the backend answers with that selection, the table getUsers resolves with
  has no entry under the caller's id (provided that id is not \<^verbatim>\<open>"ALL"\<close>, the key of
  the sentinel).
\<close>

theorem getUsers_condition_excludes_exactly_the_caller:
  assumes "store_user env = Some u"
  shows "let c = Cond ''_id'' ''!='' (u_id u)
         in calls (getUsers env db) = [(''users'', c)]
          \<and> satisfies (user_fields r) c = (u_id r \<noteq> u_id u)
          \<and> (r \<in> set (filter (\<lambda>r. satisfies (user_fields r) c) stored))
              = (r \<in> set stored \<and> u_id r \<noteq> u_id u)
          \<and> (db ''users'' c
                = Fulfilled \<lparr>status = 200, data = filter (\<lambda>r. satisfies (user_fields r) c) stored\<rparr>
              \<and> u_id u \<noteq> ''ALL'' \<longrightarrow>
              (\<exists>users. outer (getUsers env db) = Fulfilled users \<and> own users (u_id u) = None))"
  using assms
  by (auto simp: getUsers_eval user_fields_def Let_def convert_own filter_empty_conv)

theorem getUsers_condition_witness:
  "store_user signed_in = Some ann \<and> u_id ann \<noteq> ''ALL''
   \<and> filter (\<lambda>r. satisfies (user_fields r) (Cond ''_id'' ''!='' ''u1'')) [ann, bob] = [bob]
   \<and> (\<exists>users. outer (getUsers signed_in (with_status 200 [bob])) = Fulfilled users
         \<and> own users ''u1'' = None \<and> own users ''u2'' = Some bob)"
  using getUsers_condition_excludes_exactly_the_caller
          [where env = signed_in and u = ann and db = "with_status 200 [bob]"
             and stored = "[ann, bob]" and r = bob]
  by (simp add: Let_def user_fields_def getUsers_eval convert_own)

text \<open>
  Claim C9. With a signed-in user \<open>u\<close>, the record sendMessage inserts into
  \<^verbatim>\<open>messages\<close> has the generated id, the given text and chat id, \<open>read\<close> false,
  \<open>from\<close> the id of \<open>u\<close> and time now; on a response of status 200 the returned
  promise resolves with the response itself, whereas createChat resolves with its record.
\<close>

theorem sendMessage_builds_record_and_resolves_with_response:
  assumes "store_user env = Some u"
  shows "let doc = \<lparr>m_id = generateId env, m_text = text', m_read = False, m_chat_id = chatID,
                    m_from = u_id u, m_time = new_Date env\<rparr>
         in calls (sendMessage env db chatID text') = [(''messages'', doc)]
          \<and> (db ''messages'' doc = Fulfilled res \<and> status res = 200 \<longrightarrow>
               outer (sendMessage env db chatID text') = Fulfilled res)"
  using assms by (simp add: sendMessage_eval Let_def)

theorem sendMessage_success_witness:
  "store_user signed_in = Some ann
   \<and> calls (sendMessage signed_in (with_status 200 ''stored'') ''c1'' ''hello'') = [(''messages'', hello)]
   \<and> outer (sendMessage signed_in (with_status 200 ''stored'') ''c1'' ''hello'')
       = Fulfilled \<lparr>status = 200, data = ''stored''\<rparr>"
  using sendMessage_builds_record_and_resolves_with_response
          [where env = signed_in and u = ann and db = "with_status 200 ''stored''"
             and chatID = "''c1''" and text' = "''hello''"
             and res = "\<lparr>status = 200, data = ''stored''\<rparr>"]
  by (simp add: Let_def)

text \<open>
  Claim C10. createChat never looks at the status of the response: whenever its insert
  fulfils, with whatever response, the returned promise resolves with the local chat
  record; sendMessage, on a fulfilled response whose status is not 200, rejects.
\<close>

theorem createChat_ignores_status_unlike_sendMessage:
  assumes "store_user env = Some u"
  shows "let chat = \<lparr>c_id = generateId env, c_to = partnerID, c_from = u_id u,
                     c_creation = new_Date env\<rparr>;
             doc = \<lparr>m_id = generateId env, m_text = text', m_read = False, m_chat_id = chatID,
                    m_from = u_id u, m_time = new_Date env\<rparr>
         in (db ''chats'' chat = Fulfilled res \<longrightarrow>
               outer (createChat env db partnerID) = Fulfilled chat)
          \<and> (db' ''messages'' doc = Fulfilled res' \<and> status res' \<noteq> 200 \<longrightarrow>
               outer (sendMessage env db' chatID text')
                 = Rejected (Str ''User not allowed to sign in''))"
  using assms by (simp add: createChat_eval sendMessage_eval Let_def)

theorem createChat_ignores_status_witness:
  "store_user signed_in = Some ann
   \<and> status \<lparr>status = 500, data = ''refused''\<rparr> \<noteq> 200
   \<and> outer (createChat signed_in (with_status 500 ''refused'') ''u2'')
       = Fulfilled \<lparr>c_id = ''g1'', c_to = ''u2'', c_from = ''u1'', c_creation = 7\<rparr>
   \<and> outer (sendMessage signed_in (with_status 500 ''refused'') ''c1'' ''hello'')
       = Rejected (Str ''User not allowed to sign in'')"
  using createChat_ignores_status_unlike_sendMessage
          [where env = signed_in and u = ann and partnerID = "''u2''"
             and chatID = "''c1''" and text' = "''hello''"
             and db = "with_status 500 ''refused''"
             and res = "\<lparr>status = 500, data = ''refused''\<rparr>"
             and db' = "with_status 500 ''refused''"
             and res' = "\<lparr>status = 500, data = ''refused''\<rparr>"]
  by (simp add: Let_def)

end
